theory Spec2Isabelle
  imports Complex_Main
begin

section \<open>JavaScript strings\<close>

text \<open>
  A JavaScript string is a sequence of code units. The model uses \<^typ>\<open>string\<close> and
  reads each \<^typ>\<open>char\<close> as a code unit below 256 (the Latin-1 range). In that range
  the white space and line terminators that \<^verbatim>\<open>String.prototype.trim\<close> removes
  are TAB, LF, VT, FF, CR, SPACE and NBSP.
\<close>

definition isWhiteSpace :: "char \<Rightarrow> bool" where
  "isWhiteSpace c =
     (c = CHR 0x09 \<or> c = CHR 0x0A \<or> c = CHR 0x0B \<or> c = CHR 0x0C \<or> c = CHR 0x0D \<or>
      c = CHR 0x20 \<or> c = CHR 0xA0)"

definition trim :: "string \<Rightarrow> string" where
  "trim s = rev (dropWhile isWhiteSpace (rev (dropWhile isWhiteSpace s)))"

text \<open>\<^verbatim>\<open>s.startsWith(p)\<close> and \<^verbatim>\<open>s.includes(t)\<close>.\<close>

definition startsWith :: "string \<Rightarrow> string \<Rightarrow> bool" where
  "startsWith s p = (take (length p) s = p)"

fun includes_str :: "string \<Rightarrow> string \<Rightarrow> bool" where
  "includes_str [] t = (t = [])"
| "includes_str (c # cs) t = (startsWith (c # cs) t \<or> includes_str cs t)"

text \<open>
  \<^verbatim>\<open>toLowerCase\<close> on code units below 256: the ASCII capitals and the Latin-1
  capitals \<open>0xC0\<close> to \<open>0xDE\<close> (the multiplication sign \<open>0xD7\<close> apart) move up by 32.
\<close>

definition lowerChar :: "char \<Rightarrow> char" where
  "lowerChar c =
     (let n = of_char c :: nat in
      if (65 \<le> n \<and> n \<le> 90) \<or> (192 \<le> n \<and> n \<le> 222 \<and> n \<noteq> 215) then char_of (n + 32) else c)"

definition toLowerCase :: "string \<Rightarrow> string" where
  "toLowerCase s = map lowerChar s"

text \<open>The decimal rendering of a number inside a template literal.\<close>

fun show_nat :: "nat \<Rightarrow> string" where
  "show_nat n =
     (if n < 10 then [''0123456789'' ! n]
      else show_nat (n div 10) @ [''0123456789'' ! (n mod 10)])"

text \<open>A \<^verbatim>\<open>string | null\<close> inside a template literal: \<^verbatim>\<open>null\<close> prints as the word.\<close>

definition interpolate :: "string option \<Rightarrow> string" where
  "interpolate v = (case v of None \<Rightarrow> ''null'' | Some s \<Rightarrow> s)"

section \<open>The automation library seen from the page objects\<close>

text \<open>
  A locator is built from a selector by \<^verbatim>\<open>page.locator(sel)\<close>, refined by
  \<^verbatim>\<open>loc.locator(sel)\<close>, \<^verbatim>\<open>loc.first()\<close> and \<^verbatim>\<open>loc.nth(i)\<close>.
\<close>

datatype locator =
    Locator string
  | Within locator string
  | First locator
  | Nth locator nat

text \<open>
  A page is what the library answers when asked: every query either resolves with a
  value or rejects with an error of the library (type \<open>'e\<close>: a timeout, a closed
  target). The answers are those of one snapshot of the document.
  \<^item> \<open>page_url\<close>: \<^verbatim>\<open>page.url()\<close>; \<open>page_title\<close>: \<^verbatim>\<open>page.title()\<close>;
  \<^item> \<open>count\<close>, \<open>textContent\<close>, \<open>getAttribute\<close>, \<open>isVisible\<close>: the locator queries;
  \<^item> \<open>waitFor\<close>: \<^verbatim>\<open>locator.waitFor({ state: 'visible', timeout })\<close>;
  \<^item> \<open>headings\<close>: the list that \<^verbatim>\<open>page.evaluate\<close> collects from
    \<^verbatim>\<open>h1, ..., h6\<close> (level and trimmed text);
  \<^item> \<open>lang\<close>: \<^verbatim>\<open>document.documentElement.lang\<close>;
  \<^item> \<open>absoluteUrl\<close>: \<^verbatim>\<open>new URL(href, page.url()).toString()\<close>, \<open>None\<close> when the
    constructor throws;
  \<^item> \<open>request_head\<close>: the status of \<^verbatim>\<open>page.request.head(url)\<close>.
\<close>

record 'e page =
  page_url :: string
  page_title :: "'e + string"
  count :: "locator \<Rightarrow> 'e + nat"
  textContent :: "locator \<Rightarrow> 'e + string option"
  getAttribute :: "locator \<Rightarrow> string \<Rightarrow> 'e + string option"
  isVisible :: "locator \<Rightarrow> 'e + bool"
  waitFor :: "locator \<Rightarrow> 'e + unit"
  headings :: "'e + (nat \<times> string) list"
  lang :: "'e + string"
  absoluteUrl :: "string \<Rightarrow> string option"
  request_head :: "string \<Rightarrow> 'e + nat"

section \<open>Text-reading operations of the page objects\<close>

text \<open>
  The operations of the page objects and components that read text from the page and
  return it as one string. Nine of them read a locator of their own and are
  \<^verbatim>\<open>(await loc.textContent())?.trim() ?? ''\<close>.
\<close>

definition ProfileComponent_authorName :: locator where
  "ProfileComponent_authorName = First (Locator ''.author__name, h3.author__name'')"

definition ProfileComponent_tagline :: locator where
  \<open>ProfileComponent_tagline = First (Locator ''.author__bio, p[itemprop="description"]'')\<close>

definition PostPage_postTitle :: locator where
  "PostPage_postTitle = First (Locator ''h1.post-title, article h1, .post-title'')"

definition PostPage_postDate :: locator where
  "PostPage_postDate = First (Locator ''.post-meta time, time.dt-published, .post-date'')"

definition PostPage_postBody :: locator where
  "PostPage_postBody = Locator ''.post-content, article .content, .e-content''"

definition AboutPage_aboutHeading :: locator where
  "AboutPage_aboutHeading = First (Locator ''h1, .post-title, article h1'')"

definition AboutPage_bioText :: locator where
  "AboutPage_bioText = First (Locator ''.post-content p, article p, .content p'')"

definition HomePage_heading :: locator where
  "HomePage_heading = First (Locator ''h1, .site-title'')"

definition FooterComponent_copyrightText :: locator where
  "FooterComponent_copyrightText =
     First (Locator ''footer .page__footer-copyright, footer p, .page__footer-follow'')"

definition getAuthorName :: "'e page \<Rightarrow> 'e + string" where
  "getAuthorName p =
     (case textContent p ProfileComponent_authorName of
        Inl e \<Rightarrow> Inl e
      | Inr text \<Rightarrow> Inr (case text of None \<Rightarrow> '''' | Some t \<Rightarrow> trim t))"

definition getTagline :: "'e page \<Rightarrow> 'e + string" where
  "getTagline p =
     (case textContent p ProfileComponent_tagline of
        Inl e \<Rightarrow> Inl e
      | Inr text \<Rightarrow> Inr (case text of None \<Rightarrow> '''' | Some t \<Rightarrow> trim t))"

definition getPostTitle :: "'e page \<Rightarrow> 'e + string" where
  "getPostTitle p =
     (case textContent p PostPage_postTitle of
        Inl e \<Rightarrow> Inl e
      | Inr text \<Rightarrow> Inr (case text of None \<Rightarrow> '''' | Some t \<Rightarrow> trim t))"

definition getPostDate :: "'e page \<Rightarrow> 'e + string" where
  "getPostDate p =
     (case textContent p PostPage_postDate of
        Inl e \<Rightarrow> Inl e
      | Inr text \<Rightarrow> Inr (case text of None \<Rightarrow> '''' | Some t \<Rightarrow> trim t))"

definition getPostBody :: "'e page \<Rightarrow> 'e + string" where
  "getPostBody p =
     (case textContent p PostPage_postBody of
        Inl e \<Rightarrow> Inl e
      | Inr text \<Rightarrow> Inr (case text of None \<Rightarrow> '''' | Some t \<Rightarrow> trim t))"

definition getHeadingText :: "'e page \<Rightarrow> 'e + string" where
  "getHeadingText p =
     (case textContent p AboutPage_aboutHeading of
        Inl e \<Rightarrow> Inl e
      | Inr text \<Rightarrow> Inr (case text of None \<Rightarrow> '''' | Some t \<Rightarrow> trim t))"

definition getBioText :: "'e page \<Rightarrow> 'e + string" where
  "getBioText p =
     (case textContent p AboutPage_bioText of
        Inl e \<Rightarrow> Inl e
      | Inr text \<Rightarrow> Inr (case text of None \<Rightarrow> '''' | Some t \<Rightarrow> trim t))"

definition getMainHeading :: "'e page \<Rightarrow> 'e + string" where
  "getMainHeading p =
     (case textContent p HomePage_heading of
        Inl e \<Rightarrow> Inl e
      | Inr text \<Rightarrow> Inr (case text of None \<Rightarrow> '''' | Some t \<Rightarrow> trim t))"

definition getCopyrightText :: "'e page \<Rightarrow> 'e + string" where
  "getCopyrightText p =
     (case textContent p FooterComponent_copyrightText of
        Inl e \<Rightarrow> Inl e
      | Inr text \<Rightarrow> Inr (case text of None \<Rightarrow> '''' | Some t \<Rightarrow> trim t))"

text \<open>
  Two more belong to \<^verbatim>\<open>BasePage\<close> and are inherited by every page object:
  \<^verbatim>\<open>getElementText(locator)\<close> is \<^verbatim>\<open>(await locator.textContent()) ?? ''\<close>, without
  \<^verbatim>\<open>trim\<close>, and \<^verbatim>\<open>getPageTitle()\<close> is \<^verbatim>\<open>this.page.title()\<close>.
\<close>

definition getElementText :: "'e page \<Rightarrow> locator \<Rightarrow> 'e + string" where
  "getElementText p loc =
     (case textContent p loc of
        Inl e \<Rightarrow> Inl e
      | Inr text \<Rightarrow> Inr (case text of None \<Rightarrow> '''' | Some t \<Rightarrow> t))"

definition getPageTitle :: "'e page \<Rightarrow> 'e + string" where
  "getPageTitle p = page_title p"

text \<open>The nine operations that trim, each with the locator it reads.\<close>

definition text_reading_operations :: "(('e page \<Rightarrow> 'e + string) \<times> locator) list" where
  "text_reading_operations =
     [(getAuthorName, ProfileComponent_authorName),
      (getTagline, ProfileComponent_tagline),
      (getPostTitle, PostPage_postTitle),
      (getPostDate, PostPage_postDate),
      (getPostBody, PostPage_postBody),
      (getHeadingText, AboutPage_aboutHeading),
      (getBioText, AboutPage_bioText),
      (getMainHeading, HomePage_heading),
      (getCopyrightText, FooterComponent_copyrightText)]"

text \<open>A string without white space at either end.\<close>

definition noOuterWhiteSpace :: "string \<Rightarrow> bool" where
  "noOuterWhiteSpace s = (s = [] \<or> (\<not> isWhiteSpace (hd s) \<and> \<not> isWhiteSpace (last s)))"

section \<open>Accessibility helpers\<close>

datatype severity = critical | serious | moderate | minor

record A11yViolation =
  element :: string
  issue :: string
  severity :: severity

function checkImagesHaveAlt_loop ::
  "'e page \<Rightarrow> nat \<Rightarrow> nat \<Rightarrow> A11yViolation list \<Rightarrow> 'e + A11yViolation list" where
  \<open>checkImagesHaveAlt_loop p n i violations =
     (if i < n then
        (case getAttribute p (Nth (Locator ''img'') i) ''alt'' of
           Inl e \<Rightarrow> Inl e
         | Inr alt \<Rightarrow>
            (case getAttribute p (Nth (Locator ''img'') i) ''src'' of
               Inl e \<Rightarrow> Inl e
             | Inr src \<Rightarrow>
                (case alt of
                   None \<Rightarrow>
                     checkImagesHaveAlt_loop p n (i + 1)
                       (violations @
                         [\<lparr>element = ''img[src="'' @ interpolate src @ ''"]'',
                           issue = ''Image missing alt attribute'',
                           severity = critical\<rparr>])
                 | Some a \<Rightarrow>
                     if trim a = '''' then
                       checkImagesHaveAlt_loop p n (i + 1)
                         (violations @
                           [\<lparr>element = ''img[src="'' @ interpolate src @ ''"]'',
                             issue = ''Image has empty alt (verify if decorative)'',
                             severity = minor\<rparr>])
                     else checkImagesHaveAlt_loop p n (i + 1) violations)))
      else Inr violations)\<close>
  by pat_completeness auto
termination
  by (relation "measure (\<lambda>(p, n, i, violations). n - i)") auto

definition checkImagesHaveAlt :: "'e page \<Rightarrow> 'e + A11yViolation list" where
  "checkImagesHaveAlt p =
     (case count p (Locator ''img'') of
        Inl e \<Rightarrow> Inl e
      | Inr n \<Rightarrow> checkImagesHaveAlt_loop p n 0 [])"

text \<open>
  What the specification says of one image, from its \<^verbatim>\<open>alt\<close> and \<^verbatim>\<open>src\<close>
  attributes: a critical violation when \<^verbatim>\<open>alt\<close> is absent, a minor one when it is
  present and holds nothing but white space, none otherwise.
\<close>

definition image_violations_spec :: "string option \<Rightarrow> string option \<Rightarrow> A11yViolation list" where
  \<open>image_violations_spec alt src =
     (case alt of
        None \<Rightarrow>
          [\<lparr>element = ''img[src="'' @ interpolate src @ ''"]'',
            issue = ''Image missing alt attribute'',
            severity = critical\<rparr>]
      | Some a \<Rightarrow>
          if list_all isWhiteSpace a then
            [\<lparr>element = ''img[src="'' @ interpolate src @ ''"]'',
              issue = ''Image has empty alt (verify if decorative)'',
              severity = minor\<rparr>]
          else [])\<close>

declare checkImagesHaveAlt_loop.simps [simp del]

function checkLinksAccessible_loop ::
  "'e page \<Rightarrow> nat \<Rightarrow> nat \<Rightarrow> A11yViolation list \<Rightarrow> 'e + A11yViolation list" where
  \<open>checkLinksAccessible_loop p n i violations =
     (if i < n then
        (case textContent p (Nth (Locator ''a'') i) of
           Inl e \<Rightarrow> Inl e
         | Inr text \<Rightarrow>
            (case getAttribute p (Nth (Locator ''a'') i) ''aria-label'' of
               Inl e \<Rightarrow> Inl e
             | Inr ariaLabel \<Rightarrow>
                (case getAttribute p (Nth (Locator ''a'') i) ''href'' of
                   Inl e \<Rightarrow> Inl e
                 | Inr href \<Rightarrow>
                     if (case text of None \<Rightarrow> True | Some t \<Rightarrow> trim t = '''') \<and>
                        (case ariaLabel of None \<Rightarrow> True | Some l \<Rightarrow> l = '''')
                     then
                       checkLinksAccessible_loop p n (i + 1)
                         (violations @
                           [\<lparr>element = ''a[href="'' @ interpolate href @ ''"]'',
                             issue = ''Link has no accessible name'',
                             severity = critical\<rparr>])
                     else checkLinksAccessible_loop p n (i + 1) violations)))
      else Inr violations)\<close>
  by pat_completeness auto
termination
  by (relation "measure (\<lambda>(p, n, i, violations). n - i)") auto

declare checkLinksAccessible_loop.simps [simp del]

definition checkLinksAccessible :: "'e page \<Rightarrow> 'e + A11yViolation list" where
  "checkLinksAccessible p =
     (case count p (Locator ''a'') of
        Inl e \<Rightarrow> Inl e
      | Inr n \<Rightarrow> checkLinksAccessible_loop p n 0 [])"

text \<open>
  The loop of \<^verbatim>\<open>checkHeadingHierarchy\<close> over the collected headings, with
  \<^verbatim>\<open>lastLevel\<close> and the violations found so far.
\<close>

fun checkHeadingHierarchy_loop ::
  "(nat \<times> string) list \<Rightarrow> nat \<Rightarrow> A11yViolation list \<Rightarrow> A11yViolation list" where
  "checkHeadingHierarchy_loop [] lastLevel violations = violations"
| "checkHeadingHierarchy_loop ((level, text) # hs) lastLevel violations =
     checkHeadingHierarchy_loop hs level
       (if level > lastLevel + 1 \<and> lastLevel \<noteq> 0 then
          violations @
            [\<lparr>element = ''h'' @ show_nat level,
              issue = ''Heading level skipped from h'' @ show_nat lastLevel @ '' to h'' @
                      show_nat level,
              severity = moderate\<rparr>]
        else violations)"

definition checkHeadingHierarchy :: "'e page \<Rightarrow> 'e + A11yViolation list" where
  "checkHeadingHierarchy p =
     (case headings p of
        Inl e \<Rightarrow> Inl e
      | Inr hs \<Rightarrow>
          (let violations = checkHeadingHierarchy_loop hs 0 [];
               h1Count = length (filter (\<lambda>h. fst h = 1) hs);
               violations =
                 (if h1Count > 1 then
                    violations @
                      [\<lparr>element = ''h1'',
                        issue = ''Multiple h1 elements found ('' @ show_nat h1Count @ '')'',
                        severity = moderate\<rparr>]
                  else violations);
               violations =
                 (if h1Count = 0 then
                    violations @
                      [\<lparr>element = ''h1'',
                        issue = ''No h1 element found on page'',
                        severity = serious\<rparr>]
                  else violations)
           in Inr violations))"

definition checkPageLanguage :: "'e page \<Rightarrow> 'e + A11yViolation list" where
  "checkPageLanguage p =
     (case lang p of
        Inl e \<Rightarrow> Inl e
      | Inr l \<Rightarrow>
          Inr (if l = '''' then
                 [\<lparr>element = ''html'',
                   issue = ''Page language not specified'',
                   severity = serious\<rparr>]
               else []))"

definition runAccessibilityChecks :: "'e page \<Rightarrow> 'e + A11yViolation list" where
  "runAccessibilityChecks p =
     (case checkImagesHaveAlt p of
        Inl e \<Rightarrow> Inl e
      | Inr images \<Rightarrow>
     (case checkLinksAccessible p of
        Inl e \<Rightarrow> Inl e
      | Inr links \<Rightarrow>
     (case checkHeadingHierarchy p of
        Inl e \<Rightarrow> Inl e
      | Inr hierarchy \<Rightarrow>
     (case checkPageLanguage p of
        Inl e \<Rightarrow> Inl e
      | Inr language \<Rightarrow> Inr (images @ links @ hierarchy @ language)))))"

text \<open>
  What a function of the repository can throw: a rejection of the library passed on
  unchanged, an \<^verbatim>\<open>Error\<close> object that the repository constructs itself with
  \<^verbatim>\<open>new Error(message)\<close>, or a failed \<^verbatim>\<open>expect\<close> of a test.
\<close>

datatype 'e thrown = Rejected 'e | Error string | ExpectationFailed

text \<open>\<^verbatim>\<open>array.join(separator)\<close>.\<close>

fun join :: "string \<Rightarrow> string list \<Rightarrow> string" where
  "join sep [] = []"
| "join sep [x] = x"
| "join sep (x # y # ys) = x @ sep @ join sep (y # ys)"

definition assertNoCriticalViolations :: "'e page \<Rightarrow> 'e thrown + unit" where
  "assertNoCriticalViolations p =
     (case runAccessibilityChecks p of
        Inl e \<Rightarrow> Inl (Rejected e)
      | Inr violations \<Rightarrow>
          (let criticalViolations = filter (\<lambda>v. severity v = critical) violations in
           if length criticalViolations > 0 then
             (let messages =
                    join [CHR 0x0A] (map (\<lambda>v. element v @ '': '' @ issue v) criticalViolations)
              in Inl (Error (''Critical accessibility violations found:'' @ [CHR 0x0A] @ messages)))
           else Inr ()))"

section \<open>Blog post listing\<close>

record BlogPostData =
  title :: string
  date :: string
  description :: string
  tags :: "string list"
  url :: "string option"

definition postsContainer :: locator where
  "postsContainer = First (Locator ''#main, .entries-list, .archive'')"

definition postCards :: locator where
  "postCards = Locator ''article.archive__item, .archive__item''"

text \<open>
  \<^verbatim>\<open>await this.postsContainer.waitFor(...).catch(() => {})\<close>: a rejected wait is
  dropped, and the count is read in both cases.
\<close>

definition getPostCount :: "'e page \<Rightarrow> 'e + nat" where
  "getPostCount p =
     (case waitFor p postsContainer of
        Inl e \<Rightarrow> count p postCards
      | Inr u \<Rightarrow> count p postCards)"

definition titleLocators :: locator where
  \<open>titleLocators =
     Locator ''.archive__item-title a, .archive__item h2 a, article.archive__item a[rel="permalink"]''\<close>

text \<open>
  The loop shared by \<^verbatim>\<open>getAllPostTitles\<close> and the tags of \<^verbatim>\<open>getPostByIndex\<close>:
  the trimmed text of every element of a locator, the blank ones left out.
\<close>

function collect_texts_loop ::
  "'e page \<Rightarrow> locator \<Rightarrow> nat \<Rightarrow> nat \<Rightarrow> string list \<Rightarrow> 'e + string list" where
  "collect_texts_loop p loc n i texts =
     (if i < n then
        (case textContent p (Nth loc i) of
           Inl e \<Rightarrow> Inl e
         | Inr text \<Rightarrow>
            (case text of
               None \<Rightarrow> collect_texts_loop p loc n (i + 1) texts
             | Some t \<Rightarrow>
                 if trim t \<noteq> '''' then collect_texts_loop p loc n (i + 1) (texts @ [trim t])
                 else collect_texts_loop p loc n (i + 1) texts))
      else Inr texts)"
  by pat_completeness auto
termination
  by (relation "measure (\<lambda>(p, loc, n, i, texts). n - i)") auto

declare collect_texts_loop.simps [simp del]

definition getAllPostTitles :: "'e page \<Rightarrow> 'e + string list" where
  "getAllPostTitles p =
     (case count p titleLocators of
        Inl e \<Rightarrow> Inl e
      | Inr n \<Rightarrow> collect_texts_loop p titleLocators n 0 [])"

definition getPostByIndex :: "'e page \<Rightarrow> nat \<Rightarrow> 'e + BlogPostData" where
  \<open>getPostByIndex p index =
     (let post = Nth postCards index;
          titleElement = First (Within post ''.archive__item-title a, h2 a, a[rel="permalink"]'');
          dateElement = First (Within post ''time, .page__meta-date, .archive__item-excerpt time'');
          descElement = First (Within post ''.archive__item-excerpt p, p.archive__item-excerpt'');
          tagElements = Within post ''.page__taxonomy a, .archive__item-tags a''
      in
      case textContent p titleElement of Inl e \<Rightarrow> Inl e | Inr titleText \<Rightarrow>
      case textContent p dateElement of Inl e \<Rightarrow> Inl e | Inr dateText \<Rightarrow>
      case textContent p descElement of Inl e \<Rightarrow> Inl e | Inr descText \<Rightarrow>
      case getAttribute p titleElement ''href'' of Inl e \<Rightarrow> Inl e | Inr href \<Rightarrow>
      case count p tagElements of Inl e \<Rightarrow> Inl e | Inr tagCount \<Rightarrow>
      case collect_texts_loop p tagElements tagCount 0 [] of Inl e \<Rightarrow> Inl e | Inr tagTexts \<Rightarrow>
        Inr \<lparr>title = (case titleText of None \<Rightarrow> '''' | Some t \<Rightarrow> trim t),
             date = (case dateText of None \<Rightarrow> '''' | Some t \<Rightarrow> trim t),
             description = (case descText of None \<Rightarrow> '''' | Some t \<Rightarrow> trim t),
             tags = tagTexts,
             url = href\<rparr>)\<close>

text \<open>The title element that \<^verbatim>\<open>getPostByIndex\<close> reads in card \<open>k\<close>.\<close>

definition card_title :: "nat \<Rightarrow> locator" where
  \<open>card_title k = First (Within (Nth postCards k) ''.archive__item-title a, h2 a, a[rel="permalink"]'')\<close>

text \<open>\<^verbatim>\<open>array.findIndex(predicate)\<close>: the first index that satisfies, or \<open>-1\<close>.\<close>

fun findIndex :: "('a \<Rightarrow> bool) \<Rightarrow> 'a list \<Rightarrow> int" where
  "findIndex P [] = - 1"
| "findIndex P (x # xs) =
     (if P x then 0 else (let r = findIndex P xs in if r < 0 then - 1 else r + 1))"

definition findPostContaining :: "'e page \<Rightarrow> string \<Rightarrow> 'e + BlogPostData option" where
  "findPostContaining p searchText =
     (case getAllPostTitles p of
        Inl e \<Rightarrow> Inl e
      | Inr posts \<Rightarrow>
          (let matchingIndex =
                 findIndex (\<lambda>t. includes_str (toLowerCase t) (toLowerCase searchText)) posts
           in if matchingIndex \<ge> 0 then
                (case getPostByIndex p (nat matchingIndex) of
                   Inl e \<Rightarrow> Inl e
                 | Inr post \<Rightarrow> Inr (Some post))
              else Inr None))"

section \<open>Link health\<close>

function verifyLinksNotBroken_loop ::
  "'e page \<Rightarrow> nat \<Rightarrow> nat \<Rightarrow> string list \<Rightarrow> 'e + string list" where
  "verifyLinksNotBroken_loop p n i brokenLinks =
     (if i < n then
        (case getAttribute p (Nth (Locator ''a[href]'') i) ''href'' of
           Inl e \<Rightarrow> Inl e
         | Inr None \<Rightarrow> verifyLinksNotBroken_loop p n (i + 1) brokenLinks
         | Inr (Some href) \<Rightarrow>
             if href \<noteq> '''' \<and> \<not> startsWith href ''#'' \<and> \<not> startsWith href ''javascript:'' then
               (case absoluteUrl p href of
                  None \<Rightarrow> verifyLinksNotBroken_loop p n (i + 1) brokenLinks
                | Some u \<Rightarrow>
                   (case request_head p u of
                      Inl e \<Rightarrow> verifyLinksNotBroken_loop p n (i + 1) brokenLinks
                    | Inr status \<Rightarrow>
                        if status \<ge> 400 then
                          verifyLinksNotBroken_loop p n (i + 1)
                            (brokenLinks @ [href @ '' ('' @ show_nat status @ '')''])
                        else verifyLinksNotBroken_loop p n (i + 1) brokenLinks))
             else verifyLinksNotBroken_loop p n (i + 1) brokenLinks)
      else Inr brokenLinks)"
  by pat_completeness auto
termination
  by (relation "measure (\<lambda>(p, n, i, brokenLinks). n - i)") auto

declare verifyLinksNotBroken_loop.simps [simp del]

definition verifyLinksNotBroken :: "'e page \<Rightarrow> 'e + string list" where
  "verifyLinksNotBroken p =
     (case count p (Locator ''a[href]'') of
        Inl e \<Rightarrow> Inl e
      | Inr n \<Rightarrow> verifyLinksNotBroken_loop p n 0 [])"

section \<open>The retry helper\<close>

text \<open>
  A JavaScript number is a finite value, one of the two infinities, or \<^verbatim>\<open>NaN\<close>.
  The finite values are taken as rationals (every finite double is one, and the
  comparisons below are exact on them). \<open>number_le\<close> and \<open>number_less\<close> are
  \<^verbatim>\<open><=\<close> and \<^verbatim>\<open><\<close>: false as soon as one side is \<^verbatim>\<open>NaN\<close>.
\<close>

datatype number = Finite rat | PosInfinity | NegInfinity | NaN

fun number_le :: "number \<Rightarrow> number \<Rightarrow> bool" where
  "number_le NaN y = False"
| "number_le x NaN = False"
| "number_le NegInfinity y = True"
| "number_le x PosInfinity = True"
| "number_le PosInfinity y = False"
| "number_le x NegInfinity = False"
| "number_le (Finite a) (Finite b) = (a \<le> b)"

fun number_less :: "number \<Rightarrow> number \<Rightarrow> bool" where
  "number_less NaN y = False"
| "number_less x NaN = False"
| "number_less PosInfinity y = False"
| "number_less x NegInfinity = False"
| "number_less NegInfinity y = True"
| "number_less x PosInfinity = True"
| "number_less (Finite a) (Finite b) = (a < b)"

text \<open>
  \<^verbatim>\<open>fn\<close> has effects and may answer differently each time: \<open>fn k\<close> is the outcome
  of its invocation number \<open>k\<close> (from 0), \<open>Inl\<close> the value it rejects with. The loop
  variable \<^verbatim>\<open>attempt\<close> starts at 1 and grows by one per invocation, so it is kept as
  an integer and the invocation made in iteration \<open>attempt\<close> is number \<open>attempt - 1\<close>.
  \<^verbatim>\<open>maxAttempts\<close> and \<^verbatim>\<open>delay\<close> are numbers; \<open>maxAttempts'\<close> and \<open>delay'\<close>
  are the local constants that the destructuring with defaults binds.
  \<^verbatim>\<open>lastError\<close> is \<open>None\<close> while it is \<^verbatim>\<open>undefined\<close>. The list \<open>events\<close>
  records, in order, each invocation of \<^verbatim>\<open>fn\<close> and each \<^verbatim>\<open>wait(delay)\<close>.
  With \<^verbatim>\<open>maxAttempts\<close> infinite and \<^verbatim>\<open>fn\<close> rejecting for ever the loop does not
  end: the result is \<open>None\<close> then, and \<open>Some\<close> of what \<^verbatim>\<open>retry\<close> returns or throws
  otherwise.
\<close>

record RetryOptions =
  maxAttempts :: "number option"
  delay :: "number option"

datatype event = Invoke | Wait number

partial_function (option) retry_loop ::
  "(nat \<Rightarrow> 'e + 'a) \<Rightarrow> number \<Rightarrow> number \<Rightarrow> int \<Rightarrow> 'e option \<Rightarrow> event list \<Rightarrow>
     (('e option + 'a) \<times> event list) option" where
  "retry_loop fn maxAttempts' delay' attempt lastError events =
     (if number_le (Finite (of_int attempt)) maxAttempts' then
        (case fn (nat (attempt - 1)) of
           Inr v \<Rightarrow> Some (Inr v, events @ [Invoke])
         | Inl error \<Rightarrow>
             if number_less (Finite (of_int attempt)) maxAttempts' then
               retry_loop fn maxAttempts' delay' (attempt + 1) (Some error)
                 (events @ [Invoke, Wait delay'])
             else
               retry_loop fn maxAttempts' delay' (attempt + 1) (Some error) (events @ [Invoke]))
      else Some (Inl lastError, events))"

definition retry ::
  "(nat \<Rightarrow> 'e + 'a) \<Rightarrow> RetryOptions \<Rightarrow> (('e option + 'a) \<times> event list) option" where
  "retry fn options =
     (let maxAttempts' = (case maxAttempts options of None \<Rightarrow> Finite 3 | Some m \<Rightarrow> m);
          delay' = (case delay options of None \<Rightarrow> Finite 1000 | Some d \<Rightarrow> d)
      in retry_loop fn maxAttempts' delay' 1 None [])"


section \<open>The configuration object\<close>

text \<open>
  \<^verbatim>\<open>process.env.CI\<close> is a string or \<^verbatim>\<open>undefined\<close>; as a condition it holds when
  the variable is set to a string that is not empty.
\<close>

definition truthy :: "string option \<Rightarrow> bool" where
  "truthy v = (case v of None \<Rightarrow> False | Some s \<Rightarrow> s \<noteq> '''')"

record PlaywrightConfig =
  testDir :: string
  fullyParallel :: bool
  forbidOnly :: bool
  retries :: nat
  workers :: "nat option"
  reporter :: "(string \<times> (string \<times> string) list) list"
  timeout :: nat
  expect_timeout :: nat
  expect_maxDiffPixels :: nat
  baseURL :: string
  trace :: string
  screenshot :: string
  video :: string
  viewport :: "nat \<times> nat"
  actionTimeout :: nat
  navigationTimeout :: nat
  projects :: "(string \<times> string) list"
  outputDir :: string

text \<open>
  The exported configuration, as a function of \<^verbatim>\<open>process.env.CI\<close>. Each project is
  given by its name and the name of the device profile it spreads.
\<close>

definition defineConfig :: "string option \<Rightarrow> PlaywrightConfig" where
  "defineConfig CI =
     \<lparr>testDir = ''./src/tests'',
      fullyParallel = True,
      forbidOnly = truthy CI,
      retries = (if truthy CI then 2 else 0),
      workers = (if truthy CI then Some 1 else None),
      reporter =
        [(''html'', [(''open'', ''never'')]),
         (''list'', []),
         (''allure-playwright'', []),
         (''json'', [(''outputFile'', ''test-results/results.json'')])],
      timeout = 30000,
      expect_timeout = 10000,
      expect_maxDiffPixels = 100,
      baseURL = ''https://othrondir.github.io/QAbbalah/'',
      trace = ''on-first-retry'',
      screenshot = ''only-on-failure'',
      video = ''on-first-retry'',
      viewport = (1280, 720),
      actionTimeout = 15000,
      navigationTimeout = 30000,
      projects =
        [(''chromium'', ''Desktop Chrome''),
         (''firefox'', ''Desktop Firefox''),
         (''webkit'', ''Desktop Safari''),
         (''Mobile Chrome'', ''Pixel 5''),
         (''Mobile Safari'', ''iPhone 12''),
         (''Tablet'', ''iPad (gen 7)'')],
      outputDir = ''test-results/''\<rparr>"

section \<open>Navigation and the smoke tests\<close>

text \<open>
  Actions change what the browser shows. A browser is given by its states \<open>'s\<close>, the
  page each state shows, and what each action does to a state: it resolves in a new
  state or rejects.
\<close>

record ('s, 'e) browser =
  snapshot :: "'s \<Rightarrow> 'e page"
  goto :: "'s \<Rightarrow> string \<Rightarrow> 'e + 's"
  waitForLoadState :: "'s \<Rightarrow> string \<Rightarrow> 'e + 's"
  click :: "'s \<Rightarrow> locator \<Rightarrow> 'e + 's"
  waitForTimeout :: "'s \<Rightarrow> nat \<Rightarrow> 'e + 's"

definition waitForPageLoad :: "('s, 'e) browser \<Rightarrow> 's \<Rightarrow> 'e + 's" where
  "waitForPageLoad b s =
     (case waitForLoadState b s ''domcontentloaded'' of
        Inl e \<Rightarrow> Inl e
      | Inr s1 \<Rightarrow> waitForLoadState b s1 ''networkidle'')"

definition BasePage_navigate :: "('s, 'e) browser \<Rightarrow> string \<Rightarrow> 's \<Rightarrow> 'e + 's" where
  "BasePage_navigate b pageUrl s =
     (case goto b s pageUrl of
        Inl e \<Rightarrow> Inl e
      | Inr s1 \<Rightarrow> waitForPageLoad b s1)"

definition mainContent :: locator where
  "mainContent = Locator ''#main''"

definition HomePage_navigate :: "('s, 'e) browser \<Rightarrow> 's \<Rightarrow> 'e + 's" where
  "HomePage_navigate b s =
     (case BasePage_navigate b '''' s of
        Inl e \<Rightarrow> Inl e
      | Inr s1 \<Rightarrow>
          (case waitFor (snapshot b s1) mainContent of
             Inl e \<Rightarrow> Inl e
           | Inr u \<Rightarrow> Inr s1))"

definition getRecentPostsCount :: "'e page \<Rightarrow> 'e + nat" where
  "getRecentPostsCount p = getPostCount p"


definition aboutLink :: locator where
  \<open>aboutLink =
     First (Locator ''.visible-links a[href*="about"], .masthead__menu-item a:has-text("About")'')\<close>




text \<open>\<^verbatim>\<open>expect(n).toBeGreaterThan(m)\<close> and \<^verbatim>\<open>expect(page).toHaveURL(/about/i)\<close>.\<close>

definition expect_toBeGreaterThan :: "nat \<Rightarrow> nat \<Rightarrow> 'e thrown + unit" where
  "expect_toBeGreaterThan n m = (if n > m then Inr () else Inl ExpectationFailed)"



text \<open>The smoke test \<^verbatim>\<open>should display at least one blog post\<close>.\<close>

definition should_display_at_least_one_blog_post ::
  "('s, 'e) browser \<Rightarrow> 's \<Rightarrow> 'e thrown + unit" where
  "should_display_at_least_one_blog_post b s =
     (case HomePage_navigate b s of
        Inl e \<Rightarrow> Inl (Rejected e)
      | Inr s1 \<Rightarrow>
          (case getRecentPostsCount (snapshot b s1) of
             Inl e \<Rightarrow> Inl (Rejected e)
           | Inr postCount \<Rightarrow> expect_toBeGreaterThan postCount 0))"


section \<open>Concrete pages and functions\<close>

text \<open>
  A home page with three images (the first without \<^verbatim>\<open>alt\<close>, the second with a blank
  one and no \<^verbatim>\<open>src\<close>, the third described) and an author name padded with blanks.
\<close>

definition example_home :: "string page" where
  \<open>example_home =
     \<lparr>page_url = ''https://othrondir.github.io/QAbbalah/'',
      page_title = Inr ''QAbbalah'',
      count = (\<lambda>l. if l = Locator ''img'' then Inr 3 else Inr 0),
      textContent = (\<lambda>l. if l = ProfileComponent_authorName then Inr (Some ''  Alejandro Lopez '')
                           else Inl ''Timeout 30000ms exceeded''),
      getAttribute = (\<lambda>l a.
         if l = Nth (Locator ''img'') 0 \<and> a = ''src'' then Inr (Some ''a.png'')
         else if l = Nth (Locator ''img'') 1 \<and> a = ''alt'' then Inr (Some '' '')
         else if l = Nth (Locator ''img'') 2 \<and> a = ''alt'' then Inr (Some ''Avatar'')
         else if l = Nth (Locator ''img'') 2 \<and> a = ''src'' then Inr (Some ''c.png'')
         else Inr None),
      isVisible = (\<lambda>l. Inr True),
      waitFor = (\<lambda>l. Inr ()),
      headings = Inr [(1, ''QAbbalah'')],
      lang = Inr ''en'',
      absoluteUrl = (\<lambda>h. Some h),
      request_head = (\<lambda>u. Inr 200)\<rparr>\<close>

definition example_home_alt :: "nat \<Rightarrow> string option" where
  "example_home_alt i = (if i = 0 then None else if i = 1 then Some '' '' else Some ''Avatar'')"

definition example_home_src :: "nat \<Rightarrow> string option" where
  "example_home_src i = (if i = 0 then Some ''a.png'' else if i = 1 then None else Some ''c.png'')"

text \<open>A function that rejects twice and then resolves.\<close>

definition flaky :: "nat \<Rightarrow> string + nat" where
  "flaky k = (if k < 2 then Inl ''boom'' else Inr 42)"


text \<open>
  A page on which every query resolves with nothing found, at a given address; the
  concrete pages below override what they need.
\<close>

definition empty_page :: "string \<Rightarrow> string page" where
  "empty_page u =
     \<lparr>page_url = u,
      page_title = Inr '''',
      count = (\<lambda>l. Inr 0),
      textContent = (\<lambda>l. Inr None),
      getAttribute = (\<lambda>l a. Inr None),
      isVisible = (\<lambda>l. Inr False),
      waitFor = (\<lambda>l. Inr ()),
      headings = Inr [],
      lang = Inr ''en'',
      absoluteUrl = (\<lambda>h. Some (u @ h)),
      request_head = (\<lambda>r. Inr 200)\<rparr>"

text \<open>
  A listing with three post cards whose container never becomes visible: the wait for
  it rejects.
\<close>

definition hidden_listing :: "string page" where
  "hidden_listing =
     (empty_page ''https://othrondir.github.io/QAbbalah/'')
       \<lparr>count := (\<lambda>l. if l = postCards then Inr 3 else Inr 0),
        waitFor := (\<lambda>l. if l = postsContainer then Inl ''Timeout 10000ms exceeded'' else Inr ())\<rparr>"

text \<open>
  A site of two pages. Navigation leads to the listing; a click on the About link
  leads to the state given as \<open>target\<close>; every other click times out.
\<close>

datatype site_state = Blank | AtHome | AtAbout

definition site :: "site_state \<Rightarrow> (site_state, string) browser" where
  "site target =
     \<lparr>snapshot = (\<lambda>s. case s of
          Blank \<Rightarrow> empty_page ''about:blank''
        | AtHome \<Rightarrow> hidden_listing
        | AtAbout \<Rightarrow> empty_page ''https://othrondir.github.io/QAbbalah/about/''),
      goto = (\<lambda>s u. Inr AtHome),
      waitForLoadState = (\<lambda>s state. Inr s),
      click = (\<lambda>s l. if l = aboutLink then Inr target else Inl ''Timeout 15000ms exceeded''),
      waitForTimeout = (\<lambda>s ms. Inr s)\<rparr>"

text \<open>The claim's reading of the retry count: 2 whenever the variable is set.\<close>

definition CI_is_set :: "string option \<Rightarrow> bool" where
  "CI_is_set CI = (CI \<noteq> None)"

text \<open>
  The entries of one anchor as the claim states them (every \<^verbatim>\<open>href\<close> that starts
  with neither \<open>#\<close> nor \<open>javascript:\<close>), and as the code has them (the \<^verbatim>\<open>href\<close>
  must also be a string that is not empty).
\<close>

definition broken_link_entries_stated :: "'e page \<Rightarrow> string option \<Rightarrow> string list" where
  "broken_link_entries_stated p href =
     (case href of
        None \<Rightarrow> []
      | Some h \<Rightarrow>
          if \<not> startsWith h ''#'' \<and> \<not> startsWith h ''javascript:'' then
            (case absoluteUrl p h of
               None \<Rightarrow> []
             | Some u \<Rightarrow>
                (case request_head p u of
                   Inl e \<Rightarrow> []
                 | Inr status \<Rightarrow>
                     if status \<ge> 400 then [h @ '' ('' @ show_nat status @ '')''] else []))
          else [])"

definition broken_link_entries :: "'e page \<Rightarrow> string option \<Rightarrow> string list" where
  "broken_link_entries p href =
     (case href of
        None \<Rightarrow> []
      | Some h \<Rightarrow>
          if h \<noteq> '''' \<and> \<not> startsWith h ''#'' \<and> \<not> startsWith h ''javascript:'' then
            (case absoluteUrl p h of
               None \<Rightarrow> []
             | Some u \<Rightarrow>
                (case request_head p u of
                   Inl e \<Rightarrow> []
                 | Inr status \<Rightarrow>
                     if status \<ge> 400 then [h @ '' ('' @ show_nat status @ '')''] else []))
          else [])"

text \<open>
  An error page, itself answered with status 404, that holds one anchor with an empty
  \<^verbatim>\<open>href\<close>: the address the anchor resolves to is the page's own.
\<close>

definition not_found_page :: "string page" where
  "not_found_page =
     (empty_page ''https://othrondir.github.io/QAbbalah/missing'')
       \<lparr>count := (\<lambda>l. if l = Locator ''a[href]'' then Inr 1 else Inr 0),
        getAttribute := (\<lambda>l a.
          if l = Nth (Locator ''a[href]'') 0 \<and> a = ''href'' then Inr (Some '''') else Inr None),
        request_head := (\<lambda>r. Inr 404)\<rparr>"

text \<open>
  A page with four anchors: a fragment, a script link, a dead link, and a link whose
  request fails.
\<close>

definition links_page :: "string page" where
  "links_page =
     (empty_page ''https://othrondir.github.io/QAbbalah/'')
       \<lparr>count := (\<lambda>l. if l = Locator ''a[href]'' then Inr 4 else Inr 0),
        getAttribute := (\<lambda>l a.
          if l = Nth (Locator ''a[href]'') 0 \<and> a = ''href'' then Inr (Some ''#top'')
          else if l = Nth (Locator ''a[href]'') 1 \<and> a = ''href'' then Inr (Some ''javascript:void(0)'')
          else if l = Nth (Locator ''a[href]'') 2 \<and> a = ''href'' then Inr (Some ''gone/'')
          else if l = Nth (Locator ''a[href]'') 3 \<and> a = ''href'' then Inr (Some ''down/'')
          else Inr None),
        request_head := (\<lambda>r.
          if r = ''https://othrondir.github.io/QAbbalah/gone/'' then Inr 404
          else if r = ''https://othrondir.github.io/QAbbalah/down/'' then Inl ''ECONNREFUSED''
          else Inr 200)\<rparr>"

definition links_page_href :: "nat \<Rightarrow> string option" where
  "links_page_href i =
     (if i = 0 then Some ''#top'' else if i = 1 then Some ''javascript:void(0)''
      else if i = 2 then Some ''gone/'' else Some ''down/'')"

text \<open>
  A listing of three post cards. The first card is a link post: its heading holds two
  anchors, the title and a permalink. The title locator therefore finds four anchors on
  the page, one more than there are cards.
\<close>

definition listing_with_link_post :: "string page" where
  "listing_with_link_post =
     (empty_page ''https://othrondir.github.io/QAbbalah/'')
       \<lparr>count := (\<lambda>l. if l = titleLocators then Inr 4 else if l = postCards then Inr 3 else Inr 0),
        textContent := (\<lambda>l.
          if l = Nth titleLocators 0 then Inr (Some ''External article'')
          else if l = Nth titleLocators 1 then Inr (Some ''Permalink'')
          else if l = Nth titleLocators 2 then Inr (Some ''Hello World'')
          else if l = Nth titleLocators 3 then Inr (Some ''Third post'')
          else if l = card_title 0 then Inr (Some ''External article'')
          else if l = card_title 1 then Inr (Some ''Hello World'')
          else if l = card_title 2 then Inr (Some ''Third post'')
          else Inr (Some '''')),
        getAttribute := (\<lambda>l a.
          if l = card_title 0 \<and> a = ''href'' then Inr (Some ''https://example.org/article'')
          else if l = card_title 1 \<and> a = ''href'' then Inr (Some ''/QAbbalah/posts/hello-world/'')
          else if l = card_title 2 \<and> a = ''href'' then Inr (Some ''/QAbbalah/posts/third-post/'')
          else Inr None)\<rparr>"

section \<open>Properties of the string operations\<close>

lemma trim_Nil_iff: "trim s = [] \<longleftrightarrow> list_all isWhiteSpace s"
proof -
  have "trim s = [] \<longleftrightarrow> dropWhile isWhiteSpace (rev (dropWhile isWhiteSpace s)) = []"
    by (simp add: trim_def)
  also have "\<dots> \<longleftrightarrow> (\<forall>c \<in> set (dropWhile isWhiteSpace s). isWhiteSpace c)"
    by (simp add: dropWhile_eq_Nil_conv)
  also have "\<dots> \<longleftrightarrow> dropWhile isWhiteSpace s = []"
  proof
    assume all: "\<forall>c \<in> set (dropWhile isWhiteSpace s). isWhiteSpace c"
    show "dropWhile isWhiteSpace s = []"
    proof (rule ccontr)
      assume ne: "dropWhile isWhiteSpace s \<noteq> []"
      then have "\<not> isWhiteSpace (hd (dropWhile isWhiteSpace s))"
        by (rule hd_dropWhile)
      moreover have "hd (dropWhile isWhiteSpace s) \<in> set (dropWhile isWhiteSpace s)"
        using ne by simp
      ultimately show False using all by blast
    qed
  qed (auto dest: set_dropWhileD)
  also have "\<dots> \<longleftrightarrow> list_all isWhiteSpace s"
    by (simp add: dropWhile_eq_Nil_conv list_all_iff)
  finally show ?thesis .
qed

lemma trim_noOuterWhiteSpace: "noOuterWhiteSpace (trim s)"
proof (cases "trim s = []")
  case True
  then show ?thesis by (simp add: noOuterWhiteSpace_def)
next
  case False
  define y where "y = dropWhile isWhiteSpace s"
  define z where "z = dropWhile isWhiteSpace (rev y)"
  have t: "trim s = rev z" by (simp add: trim_def y_def z_def)
  with False have z: "z \<noteq> []" by simp
  then have y: "y \<noteq> []" by (auto simp: z_def)
  have "last (trim s) = hd z" using z by (simp add: t last_rev)
  moreover have "\<not> isWhiteSpace (hd z)" using z unfolding z_def by (rule hd_dropWhile)
  moreover have "hd (trim s) = last z" using z by (simp add: t hd_rev)
  moreover have "last z = last (rev y)"
  proof -
    have "rev y = takeWhile isWhiteSpace (rev y) @ z" by (simp add: z_def)
    then have "last (rev y) = last (takeWhile isWhiteSpace (rev y) @ z)" by simp
    then show ?thesis using z by simp
  qed
  moreover have "last (rev y) = hd y" using y by (simp add: last_rev)
  moreover have "\<not> isWhiteSpace (hd y)" using y unfolding y_def by (rule hd_dropWhile)
  ultimately show ?thesis by (simp add: noOuterWhiteSpace_def)
qed

lemma trim_decompose:
  "\<exists>a b. s = a @ trim s @ b \<and> list_all isWhiteSpace a \<and> list_all isWhiteSpace b"
proof -
  define a where "a = takeWhile isWhiteSpace s"
  define y where "y = dropWhile isWhiteSpace s"
  define b where "b = rev (takeWhile isWhiteSpace (rev y))"
  have "rev (takeWhile isWhiteSpace (rev y) @ dropWhile isWhiteSpace (rev y)) =
      rev (dropWhile isWhiteSpace (rev y)) @ rev (takeWhile isWhiteSpace (rev y))"
    by (rule rev_append)
  then have "y = rev (dropWhile isWhiteSpace (rev y)) @ b" by (simp add: b_def)
  then have "y = trim s @ b" by (simp add: trim_def y_def)
  moreover have "s = a @ y" by (simp add: a_def y_def)
  moreover have "list_all isWhiteSpace a"
    by (auto simp: a_def list_all_iff dest: set_takeWhileD)
  moreover have "list_all isWhiteSpace b"
    by (auto simp: b_def list_all_iff dest: set_takeWhileD)
  ultimately show ?thesis by auto
qed

section \<open>Properties of the retry loop\<close>




section \<open>Properties of the accessibility loops\<close>

lemma checkImagesHaveAlt_loop_spec:
  assumes "\<forall>j. i \<le> j \<and> j < n \<longrightarrow>
             getAttribute p (Nth (Locator ''img'') j) ''alt'' = Inr (alt j) \<and>
             getAttribute p (Nth (Locator ''img'') j) ''src'' = Inr (src j)"
  shows "checkImagesHaveAlt_loop p n i vs =
           Inr (vs @ concat (map (\<lambda>j. image_violations_spec (alt j) (src j)) [i..<n]))"
  using assms
proof (induction "n - i" arbitrary: i vs)
  case 0
  then show ?case by (subst checkImagesHaveAlt_loop.simps) simp
next
  case (Suc k)
  then have lt: "i < n" and k: "k = n - Suc i" by auto
  have reads: "getAttribute p (Nth (Locator ''img'') i) ''alt'' = Inr (alt i)"
      "getAttribute p (Nth (Locator ''img'') i) ''src'' = Inr (src i)"
    using Suc.prems lt by auto
  have rest: "\<forall>j. Suc i \<le> j \<and> j < n \<longrightarrow>
             getAttribute p (Nth (Locator ''img'') j) ''alt'' = Inr (alt j) \<and>
             getAttribute p (Nth (Locator ''img'') j) ''src'' = Inr (src j)"
    using Suc.prems by auto
  note IH = Suc.hyps(1) [OF k rest]
  have up: "[i..<n] = i # [Suc i..<n]" using lt by (simp add: upt_conv_Cons)
  show ?case
    by (subst checkImagesHaveAlt_loop.simps)
      (simp add: lt reads IH up image_violations_spec_def trim_Nil_iff split: option.splits)
qed

section \<open>Properties of the link loop\<close>

lemma verifyLinksNotBroken_loop_spec:
  assumes "\<forall>j. i \<le> j \<and> j < n \<longrightarrow>
             getAttribute p (Nth (Locator ''a[href]'') j) ''href'' = Inr (href j)"
  shows "verifyLinksNotBroken_loop p n i acc =
           Inr (acc @ concat (map (\<lambda>j. broken_link_entries p (href j)) [i..<n]))"
  using assms
proof (induction "n - i" arbitrary: i acc)
  case 0
  then show ?case by (subst verifyLinksNotBroken_loop.simps) simp
next
  case (Suc k)
  then have lt: "i < n" and k: "k = n - Suc i" by auto
  have read: "getAttribute p (Nth (Locator ''a[href]'') i) ''href'' = Inr (href i)"
    using Suc.prems lt by auto
  have rest: "\<forall>j. Suc i \<le> j \<and> j < n \<longrightarrow>
             getAttribute p (Nth (Locator ''a[href]'') j) ''href'' = Inr (href j)"
    using Suc.prems by auto
  note IH = Suc.hyps(1) [OF k rest]
  have up: "[i..<n] = i # [Suc i..<n]" using lt by (simp add: upt_conv_Cons)
  show ?case
    by (subst verifyLinksNotBroken_loop.simps)
      (simp add: lt read IH up broken_link_entries_def split: option.splits sum.splits)
qed

section \<open>Properties of the post search\<close>

lemma findIndex_ge: "- 1 \<le> findIndex P xs"
  by (induction xs) (auto simp: Let_def)

lemma findIndex_negative_iff: "findIndex P xs < 0 \<longleftrightarrow> \<not> list_ex P xs"
  using findIndex_ge [of P] by (induction xs) (auto simp: Let_def)

lemma findIndex_first:
  assumes "0 \<le> findIndex P xs"
  shows "nat (findIndex P xs) < length xs \<and> P (xs ! nat (findIndex P xs)) \<and>
         (\<forall>j < nat (findIndex P xs). \<not> P (xs ! j))"
  using assms
proof (induction xs)
  case Nil
  then show ?case by simp
next
  case (Cons x xs)
  show ?case
  proof (cases "P x")
    case True
    then show ?thesis by simp
  next
    case False
    with Cons.prems have nn: "0 \<le> findIndex P xs" by (auto simp: Let_def split: if_splits)
    then have eq: "findIndex P (x # xs) = findIndex P xs + 1" using False by (simp add: Let_def)
    have n: "nat (findIndex P xs + 1) = Suc (nat (findIndex P xs))" using nn by simp
    from Cons.IH [OF nn] False show ?thesis
      unfolding eq n by (auto simp: less_Suc_eq_0_disj)
  qed
qed

lemma collect_texts_loop_spec:
  assumes "\<forall>j. i \<le> j \<and> j < n \<longrightarrow> textContent p (Nth loc j) = Inr (content j)"
  shows "collect_texts_loop p loc n i acc =
           Inr (acc @ concat (map (\<lambda>j. case content j of None \<Rightarrow> []
                  | Some t \<Rightarrow> if trim t \<noteq> [] then [trim t] else []) [i..<n]))"
  using assms
proof (induction "n - i" arbitrary: i acc)
  case 0
  then show ?case by (subst collect_texts_loop.simps) simp
next
  case (Suc k)
  then have lt: "i < n" and k: "k = n - Suc i" by auto
  have read: "textContent p (Nth loc i) = Inr (content i)" using Suc.prems lt by auto
  have rest: "\<forall>j. Suc i \<le> j \<and> j < n \<longrightarrow> textContent p (Nth loc j) = Inr (content j)"
    using Suc.prems by auto
  note IH = Suc.hyps(1) [OF k rest]
  have up: "[i..<n] = i # [Suc i..<n]" using lt by (simp add: upt_conv_Cons)
  show ?case
    by (subst collect_texts_loop.simps) (simp add: lt read IH up split: option.splits)
qed

lemma findPostContaining_title_index:
  assumes "getAllPostTitles p = Inr titles"
  shows "(if list_ex (\<lambda>t. includes_str (toLowerCase t) (toLowerCase s)) titles then
            \<exists>k<length titles.
               includes_str (toLowerCase (titles ! k)) (toLowerCase s) \<and>
               (\<forall>j<k. \<not> includes_str (toLowerCase (titles ! j)) (toLowerCase s)) \<and>
               findPostContaining p s = map_sum id Some (getPostByIndex p k)
          else findPostContaining p s = Inr None)"
proof (cases "list_ex (\<lambda>t. includes_str (toLowerCase t) (toLowerCase s)) titles")
  case False
  then have "findIndex (\<lambda>t. includes_str (toLowerCase t) (toLowerCase s)) titles < 0"
    by (simp add: findIndex_negative_iff)
  with False assms show ?thesis by (simp add: findPostContaining_def Let_def)
next
  case True
  define ix where "ix = findIndex (\<lambda>t. includes_str (toLowerCase t) (toLowerCase s)) titles"
  have nn: "0 \<le> ix" using True findIndex_negative_iff [of _ titles] unfolding ix_def
    by (metis not_le)
  have r: "findPostContaining p s = map_sum id Some (getPostByIndex p (nat ix))"
    using assms nn by (simp add: findPostContaining_def Let_def ix_def split: sum.splits)
  from findIndex_first [OF nn [unfolded ix_def]] r True show ?thesis
    unfolding ix_def by auto
qed

text \<open>
  On a listing where the title anchors of the page are, in order, the title anchors of
  the cards, none of them blank, a post that the search returns is the first card whose
  title contains the text.
\<close>

lemma concat_singletons: "concat (map (\<lambda>j. [f j]) xs) = map f xs"
  by (induction xs) simp_all

lemma findPostContaining_aligned:
  assumes n: "count p titleLocators = Inr n"
    and aligned: "\<forall>i<n. textContent p (Nth titleLocators i) = Inr (Some (t i)) \<and>
                        trim (t i) \<noteq> [] \<and>
                        textContent p (card_title i) = Inr (Some (t i))"
    and found: "findPostContaining p s = Inr (Some d)"
  shows "\<exists>k<n. getPostByIndex p k = Inr d \<and> title d = trim (t k) \<and>
               includes_str (toLowerCase (title d)) (toLowerCase s) \<and>
               (\<forall>j<k. \<not> includes_str (toLowerCase (trim (t j))) (toLowerCase s))"
proof -
  have reads: "\<forall>j. 0 \<le> j \<and> j < n \<longrightarrow> textContent p (Nth titleLocators j) = Inr ((Some \<circ> t) j)"
    using aligned by simp
  have "concat (map (\<lambda>j. case (Some \<circ> t) j of None \<Rightarrow> []
                  | Some u \<Rightarrow> if trim u \<noteq> [] then [trim u] else []) [0..<n]) =
        concat (map (\<lambda>j. [trim (t j)]) [0..<n])"
    using aligned by (intro arg_cong [where f = concat] map_cong) auto
  then have titles: "getAllPostTitles p = Inr (map (\<lambda>j. trim (t j)) [0..<n])"
    using collect_texts_loop_spec [OF reads, of "[]"] n
    by (simp add: getAllPostTitles_def concat_singletons)
  let ?titles = "map (\<lambda>j. trim (t j)) [0..<n]"
  from findPostContaining_title_index [OF titles, of s] found
  obtain k where k: "k < n"
      "includes_str (toLowerCase (?titles ! k)) (toLowerCase s)"
      "\<forall>j<k. \<not> includes_str (toLowerCase (?titles ! j)) (toLowerCase s)"
      "findPostContaining p s = map_sum id Some (getPostByIndex p k)"
    by (auto split: if_splits)
  from k(4) found have post: "getPostByIndex p k = Inr d"
    by (cases "getPostByIndex p k") auto
  have "textContent p (card_title k) = Inr (Some (t k))" using aligned k(1) by simp
  with post have ttl: "title d = trim (t k)"
    by (auto simp: getPostByIndex_def card_title_def Let_def split: sum.splits)
  show ?thesis using k(1,2,3) post ttl by auto
qed

section \<open>Properties of the substring test\<close>




section \<open>Failures handled outside the retry helper and the link checker\<close>

text \<open>
  \<^verbatim>\<open>assertNoCriticalViolations\<close> passes a rejection of the library on unchanged,
  throws an \<^verbatim>\<open>Error\<close> of its own making (the critical violations, one per line)
  exactly when the checks resolve with a critical violation among them, and returns
  otherwise.
\<close>

lemma assertNoCriticalViolations_outcome:
  "case runAccessibilityChecks p of
      Inl e \<Rightarrow> assertNoCriticalViolations p = Inl (Rejected e)
    | Inr violations \<Rightarrow>
        if list_ex (\<lambda>v. severity v = critical) violations then
          assertNoCriticalViolations p =
            Inl (Error (''Critical accessibility violations found:'' @ [CHR 0x0A] @
                   join [CHR 0x0A]
                     (map (\<lambda>v. element v @ '': '' @ issue v)
                        (filter (\<lambda>v. severity v = critical) violations))))
        else assertNoCriticalViolations p = Inr ()"
proof -
  have "(filter P xs = []) = (\<not> list_ex P xs)" for P and xs :: "A11yViolation list"
    by (induction xs) auto
  then show ?thesis
    by (simp add: assertNoCriticalViolations_def Let_def split: sum.splits)
qed

text \<open>
  On a page where every query resolves and one image has no \<^verbatim>\<open>alt\<close>,
  \<^verbatim>\<open>assertNoCriticalViolations\<close> throws an error it built from the violations of
  severity \<open>critical\<close>; and on a page where the wait for the posts container rejects,
  \<^verbatim>\<open>getPostCount\<close> still resolves.
\<close>

lemma own_error_and_swallowed_wait:
  \<open>runAccessibilityChecks example_home =
     Inr [\<lparr>element = ''img[src="a.png"]'', issue = ''Image missing alt attribute'',
            severity = critical\<rparr>,
          \<lparr>element = ''img[src="null"]'', issue = ''Image has empty alt (verify if decorative)'',
            severity = minor\<rparr>] \<and>
   assertNoCriticalViolations example_home =
     Inl (Error (''Critical accessibility violations found:'' @ [CHR 0x0A] @
                 ''img[src="a.png"]: Image missing alt attribute'')) \<and>
   waitFor hidden_listing postsContainer = Inl ''Timeout 10000ms exceeded'' \<and>
   getPostCount hidden_listing = Inr 3\<close>
  by code_simp

section \<open>The claims\<close>




text \<open>
  C3. For every page whose queries resolve, \<^verbatim>\<open>checkImagesHaveAlt\<close> returns, in
  document order, what the specification says of each image: one critical violation
  \<open>Image missing alt attribute\<close> for an image without \<^verbatim>\<open>alt\<close>, one minor violation
  for an image whose \<^verbatim>\<open>alt\<close> holds only white space, and nothing for an image
  whose \<^verbatim>\<open>alt\<close> trims to a string that is not empty.
\<close>

theorem checkImagesHaveAlt_spec:
  assumes "count p (Locator ''img'') = Inr n"
    and "\<forall>i<n. getAttribute p (Nth (Locator ''img'') i) ''alt'' = Inr (alt i) \<and>
               getAttribute p (Nth (Locator ''img'') i) ''src'' = Inr (src i)"
  shows "checkImagesHaveAlt p =
           Inr (concat (map (\<lambda>i. image_violations_spec (alt i) (src i)) [0..<n]))"
  using assms checkImagesHaveAlt_loop_spec [of 0 n p alt src "[]"]
  by (simp add: checkImagesHaveAlt_def)

theorem checkImagesHaveAlt_spec_witness:
  \<open>count example_home (Locator ''img'') = Inr 3 \<and>
   getAttribute example_home (Nth (Locator ''img'') 0) ''alt'' = Inr None \<and>
   getAttribute example_home (Nth (Locator ''img'') 0) ''src'' = Inr (Some ''a.png'') \<and>
   getAttribute example_home (Nth (Locator ''img'') 1) ''alt'' = Inr (Some '' '') \<and>
   getAttribute example_home (Nth (Locator ''img'') 1) ''src'' = Inr None \<and>
   getAttribute example_home (Nth (Locator ''img'') 2) ''alt'' = Inr (Some ''Avatar'') \<and>
   getAttribute example_home (Nth (Locator ''img'') 2) ''src'' = Inr (Some ''c.png'') \<and>
   checkImagesHaveAlt example_home =
     Inr [\<lparr>element = ''img[src="a.png"]'', issue = ''Image missing alt attribute'',
            severity = critical\<rparr>,
          \<lparr>element = ''img[src="null"]'', issue = ''Image has empty alt (verify if decorative)'',
            severity = minor\<rparr>]\<close>
proof -
  have c: "count example_home (Locator ''img'') = Inr 3"
    by (simp add: example_home_def)
  have r: "\<forall>i<3. getAttribute example_home (Nth (Locator ''img'') i) ''alt'' = Inr (example_home_alt i) \<and>
           getAttribute example_home (Nth (Locator ''img'') i) ''src'' = Inr (example_home_src i)"
    by (simp add: example_home_def example_home_alt_def example_home_src_def)
  have u: "[0..<3] = [0, 1, 2]" by (simp add: upt_rec)
  have reads:
    "getAttribute example_home (Nth (Locator ''img'') 0) ''alt'' = Inr None"
    "getAttribute example_home (Nth (Locator ''img'') 0) ''src'' = Inr (Some ''a.png'')"
    "getAttribute example_home (Nth (Locator ''img'') 1) ''alt'' = Inr (Some '' '')"
    "getAttribute example_home (Nth (Locator ''img'') 1) ''src'' = Inr None"
    "getAttribute example_home (Nth (Locator ''img'') 2) ''alt'' = Inr (Some ''Avatar'')"
    "getAttribute example_home (Nth (Locator ''img'') 2) ''src'' = Inr (Some ''c.png'')"
    by (simp_all add: example_home_def)
  have \<open>checkImagesHaveAlt example_home =
     Inr [\<lparr>element = ''img[src="a.png"]'', issue = ''Image missing alt attribute'',
            severity = critical\<rparr>,
          \<lparr>element = ''img[src="null"]'', issue = ''Image has empty alt (verify if decorative)'',
            severity = minor\<rparr>]\<close>
    using checkImagesHaveAlt_spec [OF c r]
    by (simp add: u image_violations_spec_def example_home_alt_def example_home_src_def
        interpolate_def isWhiteSpace_def)
  with c reads show ?thesis by simp
qed

text \<open>
  C4 (amended). When the anchors can be counted and their \<^verbatim>\<open>href\<close> read,
  \<^verbatim>\<open>verifyLinksNotBroken\<close> resolves, whatever the URL constructor and the requests
  do, with one entry \<open>href (status)\<close> for each anchor, in document order, whose
  \<^verbatim>\<open>href\<close> is not empty, starts with neither \<open>#\<close> nor \<open>javascript:\<close>, resolves
  to an address, and whose HEAD request resolves with a status of 400 or more. An anchor
  whose address cannot be built or whose request rejects adds nothing.
\<close>

theorem verifyLinksNotBroken_spec:
  assumes "count p (Locator ''a[href]'') = Inr n"
    and "\<forall>i<n. getAttribute p (Nth (Locator ''a[href]'') i) ''href'' = Inr (href i)"
  shows "verifyLinksNotBroken p =
           Inr (concat (map (\<lambda>i. broken_link_entries p (href i)) [0..<n]))"
  using assms verifyLinksNotBroken_loop_spec [of 0 n p href "[]"]
  by (simp add: verifyLinksNotBroken_def)

theorem verifyLinksNotBroken_spec_witness:
  "count links_page (Locator ''a[href]'') = Inr 4 \<and>
   getAttribute links_page (Nth (Locator ''a[href]'') 0) ''href'' = Inr (Some ''#top'') \<and>
   getAttribute links_page (Nth (Locator ''a[href]'') 1) ''href'' = Inr (Some ''javascript:void(0)'') \<and>
   getAttribute links_page (Nth (Locator ''a[href]'') 2) ''href'' = Inr (Some ''gone/'') \<and>
   getAttribute links_page (Nth (Locator ''a[href]'') 3) ''href'' = Inr (Some ''down/'') \<and>
   verifyLinksNotBroken links_page = Inr [''gone/ (404)'']"
proof -
  have c: "count links_page (Locator ''a[href]'') = Inr 4"
    by (simp add: links_page_def empty_page_def)
  have r: "\<forall>i<4. getAttribute links_page (Nth (Locator ''a[href]'') i) ''href'' = Inr (links_page_href i)"
    by (simp add: links_page_def empty_page_def links_page_href_def)
  have reads:
    "getAttribute links_page (Nth (Locator ''a[href]'') 0) ''href'' = Inr (Some ''#top'')"
    "getAttribute links_page (Nth (Locator ''a[href]'') 1) ''href'' = Inr (Some ''javascript:void(0)'')"
    "getAttribute links_page (Nth (Locator ''a[href]'') 2) ''href'' = Inr (Some ''gone/'')"
    "getAttribute links_page (Nth (Locator ''a[href]'') 3) ''href'' = Inr (Some ''down/'')"
    by (simp_all add: links_page_def empty_page_def)
  have u: "[0..<4] = [0, 1, 2, 3]" by (simp add: upt_rec)
  have "verifyLinksNotBroken links_page = Inr [''gone/ (404)'']"
    using verifyLinksNotBroken_spec [OF c r]
    by (simp add: u broken_link_entries_def links_page_href_def startsWith_def
        links_page_def empty_page_def)
  with c reads show ?thesis by simp
qed

text \<open>
  C4 as stated fails on an anchor with an empty \<^verbatim>\<open>href\<close>: it starts with neither
  prefix and the address it resolves to answers 404, so the claim lists it, while the
  code's guard \<^verbatim>\<open>href &&\<close> skips it without a request.
\<close>

theorem verifyLinksNotBroken_empty_href_counterexample:
  "count not_found_page (Locator ''a[href]'') = Inr 1 \<and>
   getAttribute not_found_page (Nth (Locator ''a[href]'') 0) ''href'' = Inr (Some '''') \<and>
   broken_link_entries_stated not_found_page (Some '''') = ['' (404)''] \<and>
   verifyLinksNotBroken not_found_page = Inr []"
  by (simp add: not_found_page_def empty_page_def verifyLinksNotBroken_def
      verifyLinksNotBroken_loop.simps broken_link_entries_stated_def startsWith_def)

text \<open>
  C5. \<^verbatim>\<open>getPostCount\<close> (and \<^verbatim>\<open>getRecentPostsCount\<close>, which calls it) returns the
  count of the post-card locator whether the wait for the posts container resolved or
  rejected; the assertion \<^verbatim>\<open>expect(postCount).toBeGreaterThan(0)\<close> passes exactly
  when that count is positive; and the smoke test passes exactly when the navigation
  completes and the count read afterwards is positive.
\<close>

theorem getPostCount_smoke_check:
  "getPostCount p = count p postCards \<and>
   getRecentPostsCount p = count p postCards \<and>
   ((expect_toBeGreaterThan n 0 :: 'e thrown + unit) = Inr () \<longleftrightarrow> 0 < n) \<and>
   (should_display_at_least_one_blog_post b s = Inr () \<longleftrightarrow>
      (\<exists>s1 m. HomePage_navigate b s = Inr s1 \<and> count (snapshot b s1) postCards = Inr m \<and> 0 < m))"
proof -
  have c: "getPostCount q = count q postCards" for q :: "'x page"
    by (simp add: getPostCount_def split: sum.splits)
  show ?thesis
    by (auto simp: c getRecentPostsCount_def expect_toBeGreaterThan_def
        should_display_at_least_one_blog_post_def split: sum.splits)
qed

theorem getPostCount_smoke_check_witness:
  "waitFor hidden_listing postsContainer = Inl ''Timeout 10000ms exceeded'' \<and>
   getPostCount hidden_listing = Inr 3 \<and>
   should_display_at_least_one_blog_post (site AtAbout) Blank = Inr ()"
proof -
  have w: "waitFor hidden_listing postsContainer = Inl ''Timeout 10000ms exceeded''"
    by (simp add: hidden_listing_def empty_page_def)
  have n: "HomePage_navigate (site AtAbout) Blank = Inr AtHome"
    by (simp add: HomePage_navigate_def BasePage_navigate_def waitForPageLoad_def site_def
        hidden_listing_def empty_page_def mainContent_def postsContainer_def)
  have k: "count (snapshot (site AtAbout) AtHome) postCards = Inr 3"
    by (simp add: site_def hidden_listing_def empty_page_def)
  have s: "snapshot (site AtAbout) AtHome = hidden_listing" by (simp add: site_def)
  from getPostCount_smoke_check [of hidden_listing 3 "site AtAbout" Blank] w n k s
  show ?thesis by auto
qed



text \<open>
  C7 (amended). The configuration names the base URL, exactly the four reporters
  \<open>html\<close>, \<open>list\<close>, \<open>allure-playwright\<close> and \<open>json\<close> (the last written to
  \<open>test-results/results.json\<close>), a test timeout of 30000 ms and an expect timeout of
  10000 ms; the retry count is 2 when \<^verbatim>\<open>CI\<close> is set to a string that is not empty,
  and 0 otherwise.
\<close>

theorem defineConfig_spec:
  "baseURL (defineConfig CI) = ''https://othrondir.github.io/QAbbalah/'' \<and>
   reporter (defineConfig CI) =
     [(''html'', [(''open'', ''never'')]), (''list'', []), (''allure-playwright'', []),
      (''json'', [(''outputFile'', ''test-results/results.json'')])] \<and>
   length (reporter (defineConfig CI)) = 4 \<and>
   timeout (defineConfig CI) = 30000 \<and>
   expect_timeout (defineConfig CI) = 10000 \<and>
   retries (defineConfig CI) =
     (case CI of None \<Rightarrow> 0 | Some v \<Rightarrow> if v = '''' then 0 else 2)"
  by (simp add: defineConfig_def truthy_def split: option.splits)

theorem defineConfig_spec_witness:
  "retries (defineConfig (Some ''true'')) = 2 \<and> retries (defineConfig None) = 0 \<and>
   length (reporter (defineConfig (Some ''true''))) = 4"
  using defineConfig_spec [of "Some ''true''"] defineConfig_spec [of None] by simp

text \<open>
  C7 as stated fails when \<^verbatim>\<open>CI\<close> is set to the empty string: the variable is set
  and the retry count is 0.
\<close>

theorem defineConfig_retries_counterexample:
  "CI_is_set (Some '''') \<and> retries (defineConfig (Some '''')) = 0"
  by (simp add: CI_is_set_def defineConfig_def truthy_def)

text \<open>
  C8. \<^verbatim>\<open>findPostContaining\<close> looks the text up in the list of title anchors of the
  whole page and reads the post card at the index found there. On a listing whose first
  card holds two title anchors, the search for \<open>hello\<close> finds the title of the second
  card at index 2 of that list and returns the third card, whose title does not contain
  the text.
\<close>

theorem findPostContaining_link_post:
  "getAllPostTitles listing_with_link_post =
     Inr [''External article'', ''Permalink'', ''Hello World'', ''Third post''] \<and>
   getPostByIndex listing_with_link_post 1 =
     Inr \<lparr>title = ''Hello World'', date = '''', description = '''', tags = [],
          url = Some ''/QAbbalah/posts/hello-world/''\<rparr> \<and>
   findPostContaining listing_with_link_post ''hello'' =
     Inr (Some \<lparr>title = ''Third post'', date = '''', description = '''', tags = [],
                url = Some ''/QAbbalah/posts/third-post/''\<rparr>) \<and>
   includes_str (toLowerCase ''Third post'') (toLowerCase ''hello'') = False"
  by code_simp

text \<open>
  C9. With \<^verbatim>\<open>maxAttempts <= 0\<close> the loop body never runs: \<^verbatim>\<open>fn\<close> is not invoked,
  nothing is waited for, and \<^verbatim>\<open>retry\<close> throws the initial \<^verbatim>\<open>undefined\<close> of
  \<^verbatim>\<open>lastError\<close>.
\<close>

theorem retry_nonpositive:
  assumes "number_le m (Finite 0)"
  shows "retry fn \<lparr>maxAttempts = Some m, delay = dl\<rparr> = Some (Inl None, [])"
proof -
  have "\<not> number_le (Finite 1) m"
    using assms by (cases m) auto
  then show ?thesis by (simp add: retry_def retry_loop.simps)
qed

theorem retry_nonpositive_witness:
  "number_le (Finite 0) (Finite 0) \<and>
   retry flaky \<lparr>maxAttempts = Some (Finite 0), delay = Some (Finite 1000)\<rparr> = Some (Inl None, []) \<and>
   number_le NegInfinity (Finite 0) \<and>
   retry flaky \<lparr>maxAttempts = Some NegInfinity, delay = None\<rparr> = Some (Inl None, [])"
  using retry_nonpositive [of "Finite 0" flaky "Some (Finite 1000)"]
    retry_nonpositive [of NegInfinity flaky None] by simp

text \<open>
  C10 (amended). Each text-reading operation of the page objects and components that
  reads a locator of its own (\<^verbatim>\<open>getAuthorName\<close>, \<^verbatim>\<open>getTagline\<close>,
  \<^verbatim>\<open>getPostTitle\<close>, \<^verbatim>\<open>getPostDate\<close>, \<^verbatim>\<open>getPostBody\<close>, \<^verbatim>\<open>getHeadingText\<close>,
  \<^verbatim>\<open>getBioText\<close>, \<^verbatim>\<open>getMainHeading\<close>, \<^verbatim>\<open>getCopyrightText\<close>) passes a rejection
  of \<^verbatim>\<open>textContent\<close> on, and otherwise returns a string (never \<^verbatim>\<open>null\<close>) without
  white space at either end: the text content with only white space removed around it,
  and the empty string when the element has no text content. The two operations of
  \<^verbatim>\<open>BasePage\<close> do not trim: \<^verbatim>\<open>getElementText\<close> returns the text content as it
  is (the empty string for \<^verbatim>\<open>null\<close>), and \<^verbatim>\<open>getPageTitle\<close> returns what the
  library reports.
\<close>

theorem text_reading_operations_trimmed:
  "(\<forall>(f, l) \<in> set text_reading_operations.
      case textContent p l of
        Inl e \<Rightarrow> f p = Inl e
      | Inr text \<Rightarrow>
         (\<exists>s. f p = Inr s \<and> noOuterWhiteSpace s \<and>
              (text = None \<or> text = Some [] \<longrightarrow> s = []) \<and>
              (\<forall>t. text = Some t \<longrightarrow>
                 (\<exists>a b. t = a @ s @ b \<and> list_all isWhiteSpace a \<and> list_all isWhiteSpace b)))) \<and>
   (case textContent p loc of
      Inl e \<Rightarrow> getElementText p loc = Inl e
    | Inr text \<Rightarrow> getElementText p loc = Inr (case text of None \<Rightarrow> [] | Some t \<Rightarrow> t)) \<and>
   getPageTitle p = page_title p"
proof -
  have trimmed: "case textContent p l of
        Inl e \<Rightarrow> f p = Inl e
      | Inr text \<Rightarrow>
         (\<exists>s. f p = Inr s \<and> noOuterWhiteSpace s \<and>
              (text = None \<or> text = Some [] \<longrightarrow> s = []) \<and>
              (\<forall>t. text = Some t \<longrightarrow>
                 (\<exists>a b. t = a @ s @ b \<and> list_all isWhiteSpace a \<and> list_all isWhiteSpace b)))"
    if "(f, l) \<in> set text_reading_operations" for f l
  proof -
    have step: "f p = (case textContent p l of Inl e \<Rightarrow> Inl e
                  | Inr text \<Rightarrow> Inr (case text of None \<Rightarrow> [] | Some t \<Rightarrow> trim t))"
      using that
      by (auto simp: text_reading_operations_def getAuthorName_def getTagline_def
          getPostTitle_def getPostDate_def getPostBody_def getHeadingText_def getBioText_def
          getMainHeading_def getCopyrightText_def)
    show ?thesis
    proof (cases "textContent p l")
      case (Inl e)
      then show ?thesis by (simp add: step)
    next
      case (Inr content)
      show ?thesis
      proof (cases content)
        case None
        with Inr show ?thesis by (simp add: step noOuterWhiteSpace_def)
      next
        case (Some t)
        have "trim [] = []" by (simp add: trim_def)
        with Inr Some show ?thesis
          using trim_noOuterWhiteSpace [of t] trim_decompose [of t] by (auto simp: step)
      qed
    qed
  qed
  have untrimmed: "case textContent p loc of
      Inl e \<Rightarrow> getElementText p loc = Inl e
    | Inr text \<Rightarrow> getElementText p loc = Inr (case text of None \<Rightarrow> [] | Some t \<Rightarrow> t)"
    by (simp add: getElementText_def split: sum.splits)
  from trimmed untrimmed show ?thesis by (auto simp: getPageTitle_def)
qed

theorem text_reading_operations_trimmed_witness:
  "(getAuthorName :: string page \<Rightarrow> _, ProfileComponent_authorName) \<in> set text_reading_operations \<and>
   textContent example_home ProfileComponent_authorName = Inr (Some ''  Alejandro Lopez '') \<and>
   getAuthorName example_home = Inr ''Alejandro Lopez'' \<and>
   noOuterWhiteSpace ''Alejandro Lopez'' \<and>
   getPageTitle example_home = Inr ''QAbbalah''"
proof -
  have m: "(getAuthorName :: string page \<Rightarrow> _, ProfileComponent_authorName) \<in> set text_reading_operations"
    by (simp add: text_reading_operations_def)
  have v: "getAuthorName example_home = Inr ''Alejandro Lopez''"
    by (simp add: getAuthorName_def example_home_def trim_def isWhiteSpace_def)
  have t: "textContent example_home ProfileComponent_authorName = Inr (Some ''  Alejandro Lopez '')"
    by (simp add: example_home_def)
  have g: "page_title example_home = Inr ''QAbbalah''" by (simp add: example_home_def)
  from text_reading_operations_trimmed [of example_home ProfileComponent_authorName] m v t g
  show ?thesis by auto
qed

text \<open>
  C10 as stated fails on \<^verbatim>\<open>BasePage.getElementText\<close>, a text-reading operation that
  every page object inherits: on an author name padded with blanks it returns the text
  with the blanks.
\<close>

theorem getElementText_untrimmed_counterexample:
  "textContent example_home ProfileComponent_authorName = Inr (Some ''  Alejandro Lopez '') \<and>
   getElementText example_home ProfileComponent_authorName = Inr ''  Alejandro Lopez '' \<and>
   isWhiteSpace (hd ''  Alejandro Lopez '') \<and>
   noOuterWhiteSpace ''  Alejandro Lopez '' = False"
  by (simp add: getElementText_def example_home_def noOuterWhiteSpace_def isWhiteSpace_def)

end
